theory Spec2Isabelle
  imports Complex_Main
begin

section \<open>Double_t values\<close>

text \<open>
  A \<open>Double_t\<close> is modelled by an exact real number when it is finite, together with the three
  special values that IEEE-754 division can produce. Rounding, overflow of finite arithmetic
  and the sign of zero are not modelled; a zero divisor is taken as \<open>+0\<close>, which is what the
  conversion of an \<open>Int_t\<close> count gives. Quantities that the code obtains from a Waveform or
  from the fit (integrals, baselines, bin contents, fit parameters) are taken as finite and
  carried as \<open>real\<close>.
\<close>

datatype Double = Finite real | PosInf | NegInf | NaN

fun dneg :: "Double \<Rightarrow> Double" where
  "dneg (Finite a) = Finite (- a)"
| "dneg PosInf = NegInf"
| "dneg NegInf = PosInf"
| "dneg NaN = NaN"

fun dadd :: "Double \<Rightarrow> Double \<Rightarrow> Double" where
  "dadd NaN y = NaN"
| "dadd x NaN = NaN"
| "dadd (Finite a) (Finite b) = Finite (a + b)"
| "dadd (Finite a) y = y"
| "dadd x (Finite b) = x"
| "dadd PosInf PosInf = PosInf"
| "dadd NegInf NegInf = NegInf"
| "dadd PosInf NegInf = NaN"
| "dadd NegInf PosInf = NaN"

definition dsub :: "Double \<Rightarrow> Double \<Rightarrow> Double" where
  "dsub x y = dadd x (dneg y)"

fun dmul :: "Double \<Rightarrow> Double \<Rightarrow> Double" where
  "dmul NaN y = NaN"
| "dmul x NaN = NaN"
| "dmul (Finite a) (Finite b) = Finite (a * b)"
| "dmul (Finite a) PosInf = (if a = 0 then NaN else if 0 < a then PosInf else NegInf)"
| "dmul (Finite a) NegInf = (if a = 0 then NaN else if 0 < a then NegInf else PosInf)"
| "dmul PosInf (Finite b) = (if b = 0 then NaN else if 0 < b then PosInf else NegInf)"
| "dmul NegInf (Finite b) = (if b = 0 then NaN else if 0 < b then NegInf else PosInf)"
| "dmul PosInf PosInf = PosInf"
| "dmul NegInf NegInf = PosInf"
| "dmul PosInf NegInf = NegInf"
| "dmul NegInf PosInf = NegInf"

fun ddiv :: "Double \<Rightarrow> Double \<Rightarrow> Double" where
  "ddiv NaN y = NaN"
| "ddiv x NaN = NaN"
| "ddiv (Finite a) (Finite b) =
     (if b \<noteq> 0 then Finite (a / b)
      else if a = 0 then NaN else if 0 < a then PosInf else NegInf)"
| "ddiv (Finite a) y = Finite 0"
| "ddiv PosInf (Finite b) = (if 0 \<le> b then PosInf else NegInf)"
| "ddiv NegInf (Finite b) = (if 0 \<le> b then NegInf else PosInf)"
| "ddiv x y = NaN"

text \<open>\<open>TMath::Sqrt\<close>, that is \<open>sqrt\<close> of the C library.\<close>

fun dsqrt :: "Double \<Rightarrow> Double" where
  "dsqrt (Finite a) = (if a < 0 then NaN else Finite (sqrt a))"
| "dsqrt PosInf = PosInf"
| "dsqrt NegInf = NaN"
| "dsqrt NaN = NaN"

text \<open>The comparisons \<open>x > y\<close> and \<open>x != y\<close>; every ordered comparison with a NaN is false.\<close>

fun dgt :: "Double \<Rightarrow> Double \<Rightarrow> bool" where
  "dgt NaN y = False"
| "dgt x NaN = False"
| "dgt (Finite a) (Finite b) = (a > b)"
| "dgt PosInf y = (y \<noteq> PosInf)"
| "dgt x PosInf = False"
| "dgt x NegInf = (x \<noteq> NegInf)"
| "dgt NegInf y = False"

fun dne :: "Double \<Rightarrow> Double \<Rightarrow> bool" where
  "dne NaN y = True"
| "dne x NaN = True"
| "dne x y = (x \<noteq> y)"

text \<open>Conversion of an \<open>Int_t\<close> to \<open>Double_t\<close>, and of a finite \<open>Double_t\<close> to the 32-bit
  \<open>Int_t\<close>: truncation towards zero, and no value when the truncated number is outside
  \<open>Int_t\<close>, where the conversion is undefined.\<close>

definition of_Int_t :: "int \<Rightarrow> Double" where
  "of_Int_t n = Finite (real_of_int n)"

definition to_Int_t :: "real \<Rightarrow> int option" where
  "to_Int_t x =
     (let n = (if 0 \<le> x then \<lfloor>x\<rfloor> else \<lceil>x\<rceil>)
      in if - (2 ^ 31) \<le> n \<and> n < 2 ^ 31 then Some n else None)"

section \<open>Waveforms (TRestRawSignal)\<close>

text \<open>
  The class \<open>TRestRawSignal\<close> is used by the sources but defined outside them. A Waveform is
  the record of the state the code reads and writes directly; the derived quantities that
  its methods compute from the samples are the fields of \<open>SignalMethods\<close>, a parameter of
  every function below that calls one of them.
\<close>

record TRestRawSignal =
  fSignalID :: int
  fSignalData :: "real list"
  fBaseLine :: real
  fBaseLineSigma :: real
  fPointsOverThreshold :: "int list"
  fSignalRange :: "real \<times> real"

record SignalMethods =
  GetIntegral :: "TRestRawSignal \<Rightarrow> real"
  GetMaxPeakValue :: "TRestRawSignal \<Rightarrow> real"
  GetMaxPeakWidth :: "TRestRawSignal \<Rightarrow> int"
  GetMaxPeakBin :: "TRestRawSignal \<Rightarrow> int"
  GetData :: "TRestRawSignal \<Rightarrow> int \<Rightarrow> real"
  GetRawData :: "TRestRawSignal \<Rightarrow> int \<Rightarrow> real"
  GetNumberOfPoints :: "TRestRawSignal \<Rightarrow> int"
  BaseLineOf :: "TRestRawSignal \<Rightarrow> real \<Rightarrow> real \<Rightarrow> real \<times> real"
  PointsOverThresholdOf :: "TRestRawSignal \<Rightarrow> real \<times> real \<Rightarrow> int \<Rightarrow> int list"
  NewSignal :: TRestRawSignal

text \<open>Modelled from the spec: \<open>TRestRawSignal::CalculateBaseLine\<close> is missing from the
  sources. \<open>computeBaseline(rangeStart, rangeEnd)\<close> stores the mean and the standard deviation
  of the samples of the range as the Waveform's baseline and baseline sigma; the two values
  are those of \<open>BaseLineOf\<close>.\<close>

definition CalculateBaseLine :: "SignalMethods \<Rightarrow> real \<Rightarrow> real \<Rightarrow> TRestRawSignal \<Rightarrow> TRestRawSignal" where
  "CalculateBaseLine M a b s =
     s\<lparr>fBaseLine := fst (BaseLineOf M s a b), fBaseLineSigma := snd (BaseLineOf M s a b)\<rparr>"

text \<open>Modelled from the spec: \<open>TRestRawSignal::InitializePointsOverThreshold\<close> is missing from
  the sources. \<open>pointsOverThreshold(pointThreshold, signalThreshold, minRunLength)\<close> caches
  the bin indices over threshold in the Waveform; the bins are those of
  \<open>PointsOverThresholdOf\<close>.\<close>

definition InitializePointsOverThreshold ::
  "SignalMethods \<Rightarrow> real \<times> real \<Rightarrow> int \<Rightarrow> TRestRawSignal \<Rightarrow> TRestRawSignal" where
  "InitializePointsOverThreshold M thr n s =
     s\<lparr>fPointsOverThreshold := PointsOverThresholdOf M s thr n\<rparr>"

text \<open>Modelled from the spec: \<open>TRestRawSignal::SetRange\<close>, \<open>AddPoint\<close> and the constructor are
  missing from the sources. A new Waveform is the one of \<open>NewSignal\<close> with no sample yet, and
  \<open>AddPoint\<close> appends one sample to the sequence of amplitude samples; the type of the
  argument of \<open>AddPoint\<close> is declared outside the sources, and the value is stored as it
  is given.\<close>

definition SetRange :: "real \<times> real \<Rightarrow> TRestRawSignal \<Rightarrow> TRestRawSignal" where
  "SetRange r s = s\<lparr>fSignalRange := r\<rparr>"

definition new_TRestRawSignal :: "SignalMethods \<Rightarrow> TRestRawSignal" where
  "new_TRestRawSignal M = (NewSignal M)\<lparr>fSignalData := []\<rparr>"

definition AddPoint :: "real \<Rightarrow> TRestRawSignal \<Rightarrow> TRestRawSignal" where
  "AddPoint d s = s\<lparr>fSignalData := fSignalData s @ [d]\<rparr>"

section \<open>Events (TRestRawSignalEvent)\<close>

record TRestRawSignalEvent =
  fSignal :: "TRestRawSignal list"
  fBaseLineRange :: "real \<times> real"
  fRange :: "real \<times> real"
  fMinValue :: real
  fMaxValue :: real
  fMinTime :: real
  fMaxTime :: real

definition GetNumberOfSignals :: "TRestRawSignalEvent \<Rightarrow> int" where
  "GetNumberOfSignals ev = int (length (fSignal ev))"

text \<open>\<open>GetSignalIndex\<close>: the index of the first Waveform that carries the ID, or \<open>-1\<close>.\<close>

fun GetSignalIndex_from :: "int \<Rightarrow> TRestRawSignal list \<Rightarrow> int \<Rightarrow> int" where
  "GetSignalIndex_from i [] signalID = -1"
| "GetSignalIndex_from i (s # ss) signalID =
     (if fSignalID s = signalID then i else GetSignalIndex_from (i + 1) ss signalID)"

definition GetSignalIndex :: "TRestRawSignalEvent \<Rightarrow> int \<Rightarrow> int" where
  "GetSignalIndex ev signalID = GetSignalIndex_from 0 (fSignal ev) signalID"

text \<open>Modelled from the spec: \<open>signalIDExists\<close> is declared in the header of the class, which
  is missing from the sources. An ID exists in the Event when one of its Waveforms carries
  it, which is when \<open>GetSignalIndex\<close> finds an index.\<close>

definition signalIDExists :: "TRestRawSignalEvent \<Rightarrow> int \<Rightarrow> bool" where
  "signalIDExists ev sID = (GetSignalIndex ev sID \<noteq> -1)"

text \<open>Modelled from the spec: \<open>SetBaseLineRange\<close> is declared in the header of the class, which is
  missing from the sources. It sets the bin range over which the baseline of the Waveforms
  of the Event is computed.\<close>

definition SetBaseLineRange :: "real \<times> real \<Rightarrow> TRestRawSignalEvent \<Rightarrow> TRestRawSignalEvent" where
  "SetBaseLineRange blRange ev = ev\<lparr>fBaseLineRange := blRange\<rparr>"

datatype Message = Warning_already_exists int

text \<open>\<open>AddSignal\<close> returns the Event and what it printed.\<close>

definition AddSignal ::
  "SignalMethods \<Rightarrow> TRestRawSignalEvent \<Rightarrow> TRestRawSignal \<Rightarrow> TRestRawSignalEvent \<times> Message list" where
  "AddSignal M ev s =
     (if signalIDExists ev (fSignalID s) then (ev, [Warning_already_exists (fSignalID s)])
      else
        let s1 = CalculateBaseLine M (fst (fBaseLineRange ev)) (snd (fBaseLineRange ev)) s;
            s2 = SetRange (fRange ev) s1
        in (ev\<lparr>fSignal := fSignal ev @ [s2]\<rparr>, []))"

text \<open>\<open>GetIntegral\<close> of the Event: the loop adds the integral of each Waveform to \<open>sum\<close>.\<close>

definition GetIntegral_event :: "SignalMethods \<Rightarrow> TRestRawSignalEvent \<Rightarrow> real" where
  "GetIntegral_event M ev = fold (\<lambda>s sum. sum + GetIntegral M s) (fSignal ev) 0"

text \<open>
  \<open>GetMaxSignal\<close>. The local \<open>sId\<close> is declared without a value and assigned only inside
  the loop, so it is \<open>None\<close> until the first assignment; the integral of each Waveform is
  converted to \<open>Int_t\<close> before the comparison. The result is the null pointer, the address of
  the Waveform at an index, the address computed from the unassigned \<open>sId\<close>, or undefined
  when an integral does not convert to \<open>Int_t\<close>.
\<close>

datatype SignalPtr = Nullptr | SignalAt int | IndeterminateIndex | UndefinedConversion

fun GetMaxSignal_loop ::
  "SignalMethods \<Rightarrow> int \<Rightarrow> TRestRawSignal list \<Rightarrow> real \<times> int option
     \<Rightarrow> (real \<times> int option) option" where
  "GetMaxSignal_loop M i [] st = Some st"
| "GetMaxSignal_loop M i (s # ss) (max', sId) =
     (case to_Int_t (GetIntegral M s) of
        None \<Rightarrow> None
      | Some integ \<Rightarrow>
          if max' < real_of_int integ then GetMaxSignal_loop M (i + 1) ss (real_of_int integ, Some i)
          else GetMaxSignal_loop M (i + 1) ss (max', sId))"

definition GetMaxSignal :: "SignalMethods \<Rightarrow> TRestRawSignalEvent \<Rightarrow> SignalPtr" where
  "GetMaxSignal M ev =
     (case fSignal ev of
        [] \<Rightarrow> Nullptr
      | s0 # ss \<Rightarrow>
          (case GetMaxSignal_loop M 0 (fSignal ev) (GetIntegral M s0, None) of
             None \<Rightarrow> UndefinedConversion
           | Some (max', None) \<Rightarrow> IndeterminateIndex
           | Some (max', Some sId) \<Rightarrow> SignalAt sId))"

text \<open>\<open>GetBaseLineAverage\<close> and \<open>GetBaseLineSigmaAverage\<close>: the sum is divided by the number
  of Waveforms, converted to \<open>Double_t\<close>.\<close>

definition GetBaseLineAverage :: "TRestRawSignalEvent \<Rightarrow> Double" where
  "GetBaseLineAverage ev =
     (let baseLineMean = fold (\<lambda>s m. m + fBaseLine s) (fSignal ev) 0
      in ddiv (Finite baseLineMean) (of_Int_t (GetNumberOfSignals ev)))"

definition GetBaseLineSigmaAverage :: "TRestRawSignalEvent \<Rightarrow> Double" where
  "GetBaseLineSigmaAverage ev =
     (let baseLineSigmaMean = fold (\<lambda>s m. m + fBaseLineSigma s) (fSignal ev) 0
      in ddiv (Finite baseLineSigmaMean) (of_Int_t (GetNumberOfSignals ev)))"

definition GetLowestWidth :: "SignalMethods \<Rightarrow> TRestRawSignalEvent \<Rightarrow> real \<Rightarrow> int" where
  "GetLowestWidth M ev minPeakAmplitude =
     fold (\<lambda>s low.
             if GetMaxPeakValue M s > minPeakAmplitude
             then (let lW = GetMaxPeakWidth M s in if low > lW then lW else low)
             else low)
          (fSignal ev) 10000000"

definition GetAverageWidth :: "SignalMethods \<Rightarrow> TRestRawSignalEvent \<Rightarrow> real \<Rightarrow> Double" where
  "GetAverageWidth M ev minPeakAmplitude =
     (let (avg, n) =
            fold (\<lambda>s (avg, n).
                    if GetMaxPeakValue M s > minPeakAmplitude
                    then (avg + real_of_int (GetMaxPeakWidth M s), n + 1)
                    else (avg, n))
                 (fSignal ev) (0, 0 :: int)
      in if n = 0 then Finite 0 else ddiv (Finite avg) (of_Int_t n))"

text \<open>
  \<open>GetLowAverageWidth\<close>. \<open>widths.size() < (unsigned int)nSignals\<close> compares the size with the
  32-bit unsigned value of \<open>nSignals\<close>; the loop reads \<open>widths[n]\<close> for \<open>n\<close> below \<open>nMax\<close>
  (lemma \<open>nMax_le_size\<close>: \<open>nMax\<close> never exceeds the size, so no read is out of range).
\<close>

definition qualifying_widths :: "SignalMethods \<Rightarrow> TRestRawSignalEvent \<Rightarrow> real \<Rightarrow> real list" where
  "qualifying_widths M ev minPeakAmplitude =
     fold (\<lambda>s widths.
             if GetMaxPeakValue M s > minPeakAmplitude
             then widths @ [real_of_int (GetMaxPeakWidth M s)] else widths)
          (fSignal ev) []"

definition nMax_of :: "real list \<Rightarrow> int \<Rightarrow> int" where
  "nMax_of widths nSignals =
     (if int (length widths) < nSignals mod 2 ^ 32 then int (length widths) else nSignals)"

definition GetLowAverageWidth :: "SignalMethods \<Rightarrow> TRestRawSignalEvent \<Rightarrow> int \<Rightarrow> real \<Rightarrow> Double" where
  "GetLowAverageWidth M ev nSignals minPeakAmplitude =
     (let widths = qualifying_widths M ev minPeakAmplitude in
      if length widths = 0 then Finite 0
      else
        let sorted = sort widths;
            nMax = nMax_of sorted nSignals;
            avg = fold (\<lambda>n avg. avg + sorted ! n) [0 ..< nat nMax] 0
        in ddiv (Finite avg) (of_Int_t nSignals))"

section \<open>The fit process (TRestRawSignalFitEventProcess)\<close>

text \<open>
  The members of the process that \<open>ProcessEvent\<close> reads. The two members that share a name
  with a field of the Waveform or of the Event carry a prime.
\<close>

record TRestRawSignalFitEventProcess =
  fAgetFit :: bool
  fAddAllPulses :: bool
  fShapingFixed :: real
  fStartPositionFixed :: real
  fVarianceFixed :: real
  fAmplitudeFixed :: real
  fShapingInitialValue :: real
  fStartPositionInitialValue :: real
  fVarianceInitialValue :: real
  fAmplitudeInitialValue :: real
  fBaseLineRange' :: "real \<times> real"
  fPointsOverThreshold' :: int
  fPointThreshold :: real
  fSignalThreshold :: real

text \<open>
  ROOT's histogram and fitted function, the minimiser and the cut of the framework are
  outside the sources. A histogram is the record of what the code puts into it; the content
  that \<open>GetBinContent\<close> reads from it, the function that \<open>Fit\<close> leaves behind and the decision of
  \<open>ApplyCut\<close> are the fields of \<open>Collaborators\<close>. A call of \<open>Fit\<close> is the record of its arguments:
  the function fitted, the histogram, the parameter values set and fixed before the call,
  and the range. \<open>GetBinContent\<close> is read with the bin number that the code passes; how ROOT
  numbers the bins of a histogram is not part of the model.
\<close>

record TH1D =
  nbinsx :: int
  Fills :: "(real \<times> real) list"
  BinErrors :: "(int \<times> real) list"

record TF1 =
  Eval :: "real \<Rightarrow> real"
  GetParameter :: "nat \<Rightarrow> real"
  GetParError :: "nat \<Rightarrow> real"
  GetChisquare :: real

datatype FitFunction = Convolution_Aget_pulse | Aget

record FitCall =
  fit_function :: FitFunction
  fit_histogram :: TH1D
  fit_parameters :: "real list"
  fit_fixed :: "real option list"
  fit_xmin :: int
  fit_xmax :: int

datatype Observable = Value Double | Map_value "int \<rightharpoonup> Double"

type_synonym Observables = "string \<rightharpoonup> Observable"

record Collaborators =
  Fit :: "FitCall \<Rightarrow> TF1"
  GetBinContent :: "TH1D \<Rightarrow> int \<Rightarrow> real"
  ApplyCut :: "Observables \<Rightarrow> bool"

definition SetObservableValue :: "string \<Rightarrow> Observable \<Rightarrow> Observables \<Rightarrow> Observables" where
  "SetObservableValue name v obs = obs(name \<mapsto> v)"

definition MinBinRange :: int where
  "MinBinRange = 45"

definition MaxBinRange :: int where
  "MaxBinRange = 70"

text \<open>The local variables of \<open>ProcessEvent\<close>, and the calls of \<open>Fit\<close> made so far.\<close>

record Locals =
  SigmaMean :: Double
  Sigma :: "Double list"
  RatioSigmaMaxPeakMean :: Double
  RatioSigmaMaxPeak :: "Double list"
  ChiSquareMean :: Double
  ChiSquare :: "Double list"
  VGmean :: Double
  VGvariance :: Double
  VGweights :: Double
  amplitudeFit :: "int \<rightharpoonup> Double"
  shapingtimeFit :: "int \<rightharpoonup> Double"
  StartPositionFit :: "int \<rightharpoonup> Double"
  variancegaussFit :: "int \<rightharpoonup> Double"
  ratiosigmaamplitudeFit :: "int \<rightharpoonup> Double"
  goodSig :: int
  fit_calls :: "FitCall list"

definition initial_Locals :: "TRestRawSignalEvent \<Rightarrow> Locals" where
  "initial_Locals ev =
     \<lparr>SigmaMean = Finite 0,
      Sigma = replicate (nat (GetNumberOfSignals ev)) (Finite 0),
      RatioSigmaMaxPeakMean = Finite 0,
      RatioSigmaMaxPeak = replicate (nat (GetNumberOfSignals ev)) (Finite 0),
      ChiSquareMean = Finite 0,
      ChiSquare = replicate (nat (GetNumberOfSignals ev)) (Finite 0),
      VGmean = Finite 0, VGvariance = Finite 0, VGweights = Finite 0,
      amplitudeFit = Map.empty, shapingtimeFit = Map.empty, StartPositionFit = Map.empty,
      variancegaussFit = Map.empty, ratiosigmaamplitudeFit = Map.empty,
      goodSig = 0, fit_calls = []\<rparr>"

text \<open>\<open>for (int s = 0; s < GetNumberOfSignals(); s++) { singleSignal = GetSignal(s); ... }\<close>: the
  body works on the Waveform in place and on the local variables.\<close>

fun for_signals ::
  "(nat \<Rightarrow> TRestRawSignal \<Rightarrow> 'a \<Rightarrow> TRestRawSignal \<times> 'a) \<Rightarrow> nat \<Rightarrow> TRestRawSignal list \<Rightarrow> 'a
     \<Rightarrow> TRestRawSignal list \<times> 'a" where
  "for_signals body s [] L = ([], L)"
| "for_signals body s (singleSignal # rest) L =
     (let (singleSignal', L') = body s singleSignal L;
          (rest', L'') = for_signals body (s + 1) rest L'
      in (singleSignal' # rest', L''))"

text \<open>The histogram of a Waveform: bin by bin, \<open>Fill(i, raw - baseline)\<close> and
  \<open>SetBinError(i, baseline sigma)\<close>.\<close>

definition signal_histogram :: "SignalMethods \<Rightarrow> TRestRawSignal \<Rightarrow> TH1D" where
  "signal_histogram M singleSignal =
     (let nBins = GetNumberOfPoints M singleSignal in
      fold (\<lambda>i h. h\<lparr>Fills := Fills h @ [(real_of_int i, GetRawData M singleSignal i - fBaseLine singleSignal)],
                     BinErrors := BinErrors h @ [(i, fBaseLineSigma singleSignal)]\<rparr>)
           [0 .. nBins - 1]
           \<lparr>nbinsx = nBins, Fills = [], BinErrors = []\<rparr>)"

text \<open>The parameter values set before the fit (\<open>SetParameter\<close>, then \<open>FixParameter\<close>), for the
  convolution (ShapingTime, StartPosition, VarianceGauss, Amplitude) and for the AGET
  function (ShapingTime, StartPosition, Amplitude).\<close>

definition convolution_parameters ::
  "TRestRawSignalFitEventProcess \<Rightarrow> real \<Rightarrow> int \<Rightarrow> real list" where
  "convolution_parameters P peak MaxPeakBin =
     [if fShapingInitialValue P \<noteq> 0 then fShapingInitialValue P else 32,
      if fStartPositionInitialValue P \<noteq> 0 then real_of_int MaxPeakBin - fStartPositionInitialValue P
      else real_of_int (MaxPeakBin - 25),
      if fVarianceInitialValue P \<noteq> 0 then fVarianceInitialValue P else 1,
      if fAmplitudeInitialValue P \<noteq> 0 then peak * fAmplitudeInitialValue P else peak * 10]"

definition convolution_fixed ::
  "TRestRawSignalFitEventProcess \<Rightarrow> real \<Rightarrow> int \<Rightarrow> real option list" where
  "convolution_fixed P peak MaxPeakBin =
     [if fShapingFixed P \<noteq> 0 then Some (fShapingFixed P) else None,
      if fStartPositionFixed P \<noteq> 0 then Some (real_of_int MaxPeakBin - fStartPositionFixed P) else None,
      if fVarianceFixed P \<noteq> 0 then Some (fVarianceFixed P) else None,
      if fAmplitudeFixed P \<noteq> 0 then Some (peak * fAmplitudeFixed P) else None]"

definition aget_parameters ::
  "TRestRawSignalFitEventProcess \<Rightarrow> real \<Rightarrow> int \<Rightarrow> real list" where
  "aget_parameters P peak MaxPeakBin =
     [if fShapingInitialValue P \<noteq> 0 then fShapingInitialValue P else 32,
      if fStartPositionInitialValue P \<noteq> 0 then real_of_int MaxPeakBin - fStartPositionInitialValue P
      else real_of_int (MaxPeakBin - 25),
      if fAmplitudeInitialValue P \<noteq> 0 then peak * fAmplitudeInitialValue P else peak]"

definition aget_fixed ::
  "TRestRawSignalFitEventProcess \<Rightarrow> real \<Rightarrow> int \<Rightarrow> real option list" where
  "aget_fixed P peak MaxPeakBin =
     [if fShapingFixed P \<noteq> 0 then Some (fShapingFixed P) else None,
      if fStartPositionFixed P \<noteq> 0 then Some (real_of_int MaxPeakBin - fStartPositionFixed P) else None,
      if fAmplitudeFixed P \<noteq> 0 then Some (peak * fAmplitudeFixed P) else None]"

text \<open>\<open>for (int j = first_bin; j < end_bin; j++) sigma += (h->GetBinContent(j) - f->Eval(j)) * (...)\<close>.\<close>

definition squared_residuals :: "Collaborators \<Rightarrow> TH1D \<Rightarrow> TF1 \<Rightarrow> int \<Rightarrow> int \<Rightarrow> real" where
  "squared_residuals C h f first_bin end_bin =
     fold (\<lambda>j sigma. sigma + (GetBinContent C h j - Eval f (real_of_int j))
                              * (GetBinContent C h j - Eval f (real_of_int j)))
          [first_bin .. end_bin - 1] 0"

text \<open>The residual of one Waveform, \<open>Sigma[s]\<close>, after the convolution fit and after the AGET
  fit.\<close>

definition Sigma_convolution :: "Collaborators \<Rightarrow> TH1D \<Rightarrow> TF1 \<Rightarrow> int \<Rightarrow> Double" where
  "Sigma_convolution C h fit_conv MaxPeakBin =
     dsqrt (ddiv (Finite (squared_residuals C h fit_conv
                            (MaxPeakBin - MinBinRange) (MaxPeakBin + MaxBinRange)))
                 (of_Int_t (MinBinRange + MaxBinRange)))"

definition Sigma_aget :: "Collaborators \<Rightarrow> TH1D \<Rightarrow> TF1 \<Rightarrow> int \<Rightarrow> Double" where
  "Sigma_aget C h f MaxPeakBin =
     dsqrt (ddiv (Finite (squared_residuals C h f (MaxPeakBin - 145) (MaxPeakBin + 165)))
                 (of_Int_t (145 + 165)))"

definition convolution_call ::
  "SignalMethods \<Rightarrow> TRestRawSignalFitEventProcess \<Rightarrow> TRestRawSignal \<Rightarrow> FitCall" where
  "convolution_call M P singleSignal =
     (let MaxPeakBin = GetMaxPeakBin M singleSignal in
      \<lparr>fit_function = Convolution_Aget_pulse,
       fit_histogram = signal_histogram M singleSignal,
       fit_parameters = convolution_parameters P (GetData M singleSignal MaxPeakBin) MaxPeakBin,
       fit_fixed = convolution_fixed P (GetData M singleSignal MaxPeakBin) MaxPeakBin,
       fit_xmin = MaxPeakBin - MinBinRange,
       fit_xmax = MaxPeakBin + MaxBinRange\<rparr>)"

definition aget_call ::
  "SignalMethods \<Rightarrow> TRestRawSignalFitEventProcess \<Rightarrow> TRestRawSignal \<Rightarrow> FitCall" where
  "aget_call M P singleSignal =
     (let MaxPeakBin = GetMaxPeakBin M singleSignal in
      \<lparr>fit_function = Aget,
       fit_histogram = signal_histogram M singleSignal,
       fit_parameters = aget_parameters P (GetData M singleSignal MaxPeakBin) MaxPeakBin,
       fit_fixed = aget_fixed P (GetData M singleSignal MaxPeakBin) MaxPeakBin,
       fit_xmin = MaxPeakBin - MinBinRange,
       fit_xmax = MaxPeakBin + MaxBinRange\<rparr>)"

text \<open>The fit of one Waveform with the convolution and what it adds to the local variables;
  the same statements serve the fit of all Waveforms and the fit of the good ones.\<close>

definition fit_convolution ::
  "Collaborators \<Rightarrow> SignalMethods \<Rightarrow> TRestRawSignalFitEventProcess \<Rightarrow> nat \<Rightarrow> TRestRawSignal
     \<Rightarrow> Locals \<Rightarrow> Locals" where
  "fit_convolution C M P s singleSignal L =
     (let MaxPeakBin = GetMaxPeakBin M singleSignal;
          call = convolution_call M P singleSignal;
          h = fit_histogram call;
          fit_conv = Fit C call;
          Sigma_s = Sigma_convolution C h fit_conv MaxPeakBin;
          Ratio_s = ddiv Sigma_s (Finite (GetBinContent C h (MaxPeakBin + 1)));
          Chi_s = Finite (GetChisquare fit_conv);
          VarianceGauss = Finite (GetParameter fit_conv 2);
          ParError2 = Finite (GetParError fit_conv 2);
          sID = fSignalID singleSignal
      in L\<lparr>Sigma := (Sigma L)[s := Sigma_s],
           RatioSigmaMaxPeak := (RatioSigmaMaxPeak L)[s := Ratio_s],
           RatioSigmaMaxPeakMean := dadd (RatioSigmaMaxPeakMean L) Ratio_s,
           SigmaMean := dadd (SigmaMean L) Sigma_s,
           ChiSquare := (ChiSquare L)[s := Chi_s],
           ChiSquareMean := dadd (ChiSquareMean L) Chi_s,
           amplitudeFit := (amplitudeFit L)(sID \<mapsto> Finite (GetParameter fit_conv 3)),
           shapingtimeFit := (shapingtimeFit L)(sID \<mapsto> Finite (GetParameter fit_conv 0)),
           StartPositionFit := (StartPositionFit L)(sID \<mapsto> Finite (GetParameter fit_conv 1)),
           variancegaussFit := (variancegaussFit L)(sID \<mapsto> VarianceGauss),
           ratiosigmaamplitudeFit := (ratiosigmaamplitudeFit L)(sID \<mapsto> Ratio_s),
           VGmean := dadd (VGmean L) (ddiv VarianceGauss ParError2),
           VGvariance := dadd (VGvariance L) (ddiv (dmul VarianceGauss VarianceGauss) ParError2),
           VGweights := dadd (VGweights L) (ddiv (Finite 1) ParError2),
           fit_calls := fit_calls L @ [call]\<rparr>)"

definition fit_all_body ::
  "Collaborators \<Rightarrow> SignalMethods \<Rightarrow> TRestRawSignalFitEventProcess \<Rightarrow> nat \<Rightarrow> TRestRawSignal
     \<Rightarrow> Locals \<Rightarrow> TRestRawSignal \<times> Locals" where
  "fit_all_body C M P s singleSignal L =
     (let singleSignal' = CalculateBaseLine M 20 150 singleSignal
      in (singleSignal', fit_convolution C M P s singleSignal' L))"

definition fit_good_body ::
  "Collaborators \<Rightarrow> SignalMethods \<Rightarrow> TRestRawSignalFitEventProcess \<Rightarrow> nat \<Rightarrow> TRestRawSignal
     \<Rightarrow> Locals \<Rightarrow> TRestRawSignal \<times> Locals" where
  "fit_good_body C M P s singleSignal L =
     (let s1 = CalculateBaseLine M (fst (fBaseLineRange' P)) (snd (fBaseLineRange' P)) singleSignal;
          singleSignal' = InitializePointsOverThreshold M (fPointThreshold P, fSignalThreshold P)
                            (fPointsOverThreshold' P) s1
      in if length (fPointsOverThreshold singleSignal') \<ge> 2
         then (singleSignal', fit_convolution C M P s singleSignal' (L\<lparr>goodSig := goodSig L + 1\<rparr>))
         else (singleSignal',
               L\<lparr>amplitudeFit := (amplitudeFit L)(fSignalID singleSignal' \<mapsto> Finite (- 1)),
                 shapingtimeFit := (shapingtimeFit L)(fSignalID singleSignal' \<mapsto> Finite (- 1)),
                 StartPositionFit := (StartPositionFit L)(fSignalID singleSignal' \<mapsto> Finite (- 1)),
                 variancegaussFit := (variancegaussFit L)(fSignalID singleSignal' \<mapsto> Finite (- 1)),
                 ratiosigmaamplitudeFit :=
                   (ratiosigmaamplitudeFit L)(fSignalID singleSignal' \<mapsto> Finite (- 1))\<rparr>))"

definition fit_aget_body ::
  "Collaborators \<Rightarrow> SignalMethods \<Rightarrow> TRestRawSignalFitEventProcess \<Rightarrow> nat \<Rightarrow> TRestRawSignal
     \<Rightarrow> Locals \<Rightarrow> TRestRawSignal \<times> Locals" where
  "fit_aget_body C M P s singleSignal0 L =
     (let singleSignal = CalculateBaseLine M 20 150 singleSignal0;
          MaxPeakBin = GetMaxPeakBin M singleSignal;
          call = aget_call M P singleSignal;
          h = fit_histogram call;
          f = Fit C call;
          Sigma_s = Sigma_aget C h f MaxPeakBin;
          Ratio_s = ddiv Sigma_s (Finite (GetBinContent C h (MaxPeakBin + 1)));
          Chi_s = Finite (GetChisquare f);
          sID = fSignalID singleSignal
      in (singleSignal,
          L\<lparr>Sigma := (Sigma L)[s := Sigma_s],
            RatioSigmaMaxPeak := (RatioSigmaMaxPeak L)[s := Ratio_s],
            RatioSigmaMaxPeakMean := dadd (RatioSigmaMaxPeakMean L) Ratio_s,
            SigmaMean := dadd (SigmaMean L) Sigma_s,
            ChiSquare := (ChiSquare L)[s := Chi_s],
            ChiSquareMean := dadd (ChiSquareMean L) Chi_s,
            amplitudeFit := (amplitudeFit L)(sID \<mapsto> Finite (GetParameter f 2)),
            shapingtimeFit := (shapingtimeFit L)(sID \<mapsto> Finite (GetParameter f 0)),
            StartPositionFit := (StartPositionFit L)(sID \<mapsto> Finite (GetParameter f 1)),
            ratiosigmaamplitudeFit := (ratiosigmaamplitudeFit L)(sID \<mapsto> Ratio_s),
            fit_calls := fit_calls L @ [call]\<rparr>))"

text \<open>A read \<open>m[key]\<close> of a \<open>std::map\<close>: the value stored, or 0 for a key without entry.\<close>

definition map_read :: "(int \<rightharpoonup> Double) \<Rightarrow> int \<Rightarrow> Double" where
  "map_read m key = (case m key of Some v \<Rightarrow> v | None \<Rightarrow> Finite 0)"

definition fit_all_signals :: "TRestRawSignalFitEventProcess \<Rightarrow> bool" where
  "fit_all_signals P =
     (fPointThreshold P = 0 \<and> fSignalThreshold P = 0 \<and> fPointsOverThreshold' P = 0
      \<and> fst (fBaseLineRange' P) = 0 \<and> snd (fBaseLineRange' P) = 0)"

definition publish_maps :: "Locals \<Rightarrow> Observables \<Rightarrow> Observables" where
  "publish_maps L obs =
     SetObservableValue ''FitRatioSigmaMaxPeak_map'' (Map_value (ratiosigmaamplitudeFit L))
       (SetObservableValue ''FitVarianceGauss_map'' (Map_value (variancegaussFit L))
         (SetObservableValue ''FitStartPosition_map'' (Map_value (StartPositionFit L))
           (SetObservableValue ''FitShapingTime_map'' (Map_value (shapingtimeFit L))
             (SetObservableValue ''FitAmplitude_map'' (Map_value (amplitudeFit L)) obs))))"

definition maxVarianceGauss_of :: "TRestRawSignalEvent \<Rightarrow> Locals \<Rightarrow> Double" where
  "maxVarianceGauss_of ev L =
     fold (\<lambda>sgnl maxVarianceGauss.
             if dgt (map_read (variancegaussFit L) (fSignalID sgnl)) maxVarianceGauss
             then map_read (variancegaussFit L) (fSignalID sgnl) else maxVarianceGauss)
          (fSignal ev) (Finite 0)"

text \<open>The event observables of the convolution fit: the sums are divided by the number of
  Waveforms when all were fitted, and by \<open>goodSig\<close> when the good ones were selected, where
  the deviation skips each \<open>Sigma[k]\<close> equal to 0.\<close>

definition event_statistics ::
  "TRestRawSignalFitEventProcess \<Rightarrow> TRestRawSignalEvent \<Rightarrow> Locals
     \<Rightarrow> Double \<times> Double \<times> Double \<times> Double" where
  "event_statistics P ev L =
     (if fit_all_signals P then
        let n = of_Int_t (GetNumberOfSignals ev);
            SigmaMean' = ddiv (SigmaMean L) n;
            sigmaMeanStdDev =
              fold (\<lambda>k sd. dadd sd (dmul (dsub (Sigma L ! k) SigmaMean') (dsub (Sigma L ! k) SigmaMean')))
                   [0 ..< nat (GetNumberOfSignals ev)] (Finite 0);
            SigmaMeanStdDev = dsqrt (ddiv sigmaMeanStdDev n)
        in (SigmaMean', SigmaMeanStdDev, ddiv (ChiSquareMean L) n, ddiv (RatioSigmaMaxPeakMean L) n)
      else
        let g = of_Int_t (goodSig L);
            SigmaMean' = ddiv (SigmaMean L) g;
            sigmaMeanStdDev =
              fold (\<lambda>k sd. if dne (Sigma L ! k) (Finite 0)
                            then dadd sd (dmul (dsub (Sigma L ! k) SigmaMean') (dsub (Sigma L ! k) SigmaMean'))
                            else sd)
                   [0 ..< nat (GetNumberOfSignals ev)] (Finite 0);
            SigmaMeanStdDev = dsqrt (ddiv sigmaMeanStdDev g)
        in (SigmaMean', SigmaMeanStdDev, ddiv (ChiSquareMean L) g, ddiv (RatioSigmaMaxPeakMean L) g))"

record Outcome =
  returned :: "TRestRawSignalEvent option"
  observables :: Observables
  fits :: "FitCall list"

definition finish :: "Collaborators \<Rightarrow> TRestRawSignalEvent \<Rightarrow> Observables \<Rightarrow> Locals \<Rightarrow> Outcome" where
  "finish C ev obs L =
     \<lparr>returned = (if ApplyCut C obs then None else Some ev), observables = obs, fits = fit_calls L\<rparr>"

text \<open>The branch of the convolution fit (\<open>fAddAllPulses == false\<close>, \<open>fAgetFit == false\<close>).\<close>

definition ProcessEvent_convolution ::
  "Collaborators \<Rightarrow> SignalMethods \<Rightarrow> TRestRawSignalFitEventProcess \<Rightarrow> Observables
     \<Rightarrow> TRestRawSignalEvent \<Rightarrow> Outcome" where
  "ProcessEvent_convolution C M P obs0 ev0 =
     (let (ev, L) =
            (if fit_all_signals P then
               let (sigs, L) = for_signals (fit_all_body C M P) 0 (fSignal ev0) (initial_Locals ev0)
               in (ev0\<lparr>fSignal := sigs\<rparr>, L)
             else
               let ev1 = SetBaseLineRange (fBaseLineRange' P) ev0;
                   (sigs, L) = for_signals (fit_good_body C M P) 0 (fSignal ev1) (initial_Locals ev0)
               in (ev1\<lparr>fSignal := sigs\<rparr>, L));
          obs1 = publish_maps L obs0;
          obs2 = SetObservableValue ''FitMaxVarianceGauss'' (Value (maxVarianceGauss_of ev L)) obs1;
          (SigmaMean', SigmaMeanStdDev, ChiSquareMean', RatioSigmaMaxPeakMean') = event_statistics P ev L;
          obs3 = SetObservableValue ''FitSigmaMean'' (Value SigmaMean') obs2;
          obs4 = SetObservableValue ''FitSigmaStdDev'' (Value SigmaMeanStdDev) obs3;
          obs5 = SetObservableValue ''FitChiSquareMean'' (Value ChiSquareMean') obs4;
          obs6 = SetObservableValue ''FitRatioSigmaMaxPeakMean'' (Value RatioSigmaMaxPeakMean') obs5;
          obs7 = SetObservableValue ''FitVarianceGaussWMean'' (Value (ddiv (VGmean L) (VGweights L))) obs6;
          obs8 = SetObservableValue ''FitVarianceGaussWStdDev''
                   (Value (dsqrt (dsub (ddiv (VGvariance L) (VGweights L))
                                       (dmul (ddiv (VGmean L) (VGweights L)) (ddiv (VGmean L) (VGweights L))))))
                   obs7
      in finish C ev obs8 L)"

text \<open>The branch of the AGET fit (\<open>fAddAllPulses == false\<close>, \<open>fAgetFit == true\<close>).\<close>

definition ProcessEvent_aget ::
  "Collaborators \<Rightarrow> SignalMethods \<Rightarrow> TRestRawSignalFitEventProcess \<Rightarrow> Observables
     \<Rightarrow> TRestRawSignalEvent \<Rightarrow> Outcome" where
  "ProcessEvent_aget C M P obs0 ev0 =
     (let (sigs, L) = for_signals (fit_aget_body C M P) 0 (fSignal ev0) (initial_Locals ev0);
          ev = ev0\<lparr>fSignal := sigs\<rparr>;
          obs1 = SetObservableValue ''FitRatioSigmaMaxPeak_map'' (Map_value (ratiosigmaamplitudeFit L))
                   (SetObservableValue ''FitStartPosition_map'' (Map_value (StartPositionFit L))
                     (SetObservableValue ''FitShapingTime_map'' (Map_value (shapingtimeFit L))
                       (SetObservableValue ''FitAmplitude_map'' (Map_value (amplitudeFit L)) obs0)));
          n = of_Int_t (GetNumberOfSignals ev);
          SigmaMean' = ddiv (SigmaMean L) n;
          obs2 = SetObservableValue ''FitSigmaMean'' (Value SigmaMean') obs1;
          sigmaMeanStdDev =
            fold (\<lambda>k sd. dadd sd (dmul (dsub (Sigma L ! k) SigmaMean') (dsub (Sigma L ! k) SigmaMean')))
                 [0 ..< nat (GetNumberOfSignals ev)] (Finite 0);
          obs3 = SetObservableValue ''FitSigmaStdDev'' (Value (dsqrt (ddiv sigmaMeanStdDev n))) obs2;
          obs4 = SetObservableValue ''FitChiSquareMean'' (Value (ddiv (ChiSquareMean L) n)) obs3;
          obs5 = SetObservableValue ''FitRatioSigmaMaxPeakMean'' (Value (ddiv (RatioSigmaMaxPeakMean L) n)) obs4
      in finish C ev obs5 L)"

text \<open>The branch of the summed pulse (\<open>fAddAllPulses == true\<close>): bin by bin for the 512 bins,
  \<open>a\<close> collects \<open>GetData(i)\<close> of every Waveform and is added to \<open>allSig\<close> as its next point.\<close>

definition add_all_pulses :: "SignalMethods \<Rightarrow> TRestRawSignalEvent \<Rightarrow> TRestRawSignal \<Rightarrow> TRestRawSignal" where
  "add_all_pulses M ev allSig0 =
     fold (\<lambda>i allSig.
             let a = fold (\<lambda>singleSignal a. a + GetData M singleSignal i) (fSignal ev) 0
             in AddPoint a allSig)
          [0 .. 512 - 1] allSig0"

definition ProcessEvent_allPulses ::
  "Collaborators \<Rightarrow> SignalMethods \<Rightarrow> TRestRawSignalFitEventProcess \<Rightarrow> Observables
     \<Rightarrow> TRestRawSignalEvent \<Rightarrow> Outcome" where
  "ProcessEvent_allPulses C M P obs0 ev =
     (let L0 = initial_Locals ev;
          allSig1 = add_all_pulses M ev (new_TRestRawSignal M);
          allSig = CalculateBaseLine M (fst (fBaseLineRange' P)) (snd (fBaseLineRange' P)) allSig1;
          MaxPeakBin = GetMaxPeakBin M allSig;
          call = convolution_call M P allSig;
          h = fit_histogram call;
          fit_conv = Fit C call;
          sigma = squared_residuals C h fit_conv (MaxPeakBin - MinBinRange) (MaxPeakBin + MaxBinRange);
          VarianceGauss = Finite (GetParameter fit_conv 2);
          sID = fSignalID allSig;
          L = L0\<lparr>amplitudeFit := (amplitudeFit L0)(sID \<mapsto> Finite (GetParameter fit_conv 3)),
                 shapingtimeFit := (shapingtimeFit L0)(sID \<mapsto> Finite (GetParameter fit_conv 0)),
                 StartPositionFit := (StartPositionFit L0)(sID \<mapsto> Finite (GetParameter fit_conv 1)),
                 variancegaussFit := (variancegaussFit L0)(sID \<mapsto> VarianceGauss),
                 fit_calls := fit_calls L0 @ [call]\<rparr>;
          obs1 = publish_maps L obs0;
          obs2 = SetObservableValue ''FitMaxVarianceGauss'' (Value (map_read (variancegaussFit L) sID)) obs1;
          rms = dsqrt (ddiv (Finite sigma) (of_Int_t (MinBinRange + MaxBinRange)));
          obs3 = SetObservableValue ''FitSigmaMean'' (Value rms) obs2;
          obs4 = SetObservableValue ''FitChiSquareMean'' (Value (Finite (GetChisquare fit_conv))) obs3;
          obs5 = SetObservableValue ''FitRatioSigmaMaxPeakMean''
                   (Value (ddiv rms (Finite (GetBinContent C h (MaxPeakBin + 1))))) obs4;
          obs6 = SetObservableValue ''FitVarianceGaussWMean'' (Value VarianceGauss) obs5;
          obs7 = SetObservableValue ''FitVarianceGaussWStdDev'' (Value (Finite (GetParError fit_conv 2))) obs6
      in finish C ev obs7 L)"

definition ProcessEvent ::
  "Collaborators \<Rightarrow> SignalMethods \<Rightarrow> TRestRawSignalFitEventProcess \<Rightarrow> Observables
     \<Rightarrow> TRestRawSignalEvent \<Rightarrow> Outcome" where
  "ProcessEvent C M P obs0 ev =
     (if \<not> fAddAllPulses P then
        (if \<not> fAgetFit P then ProcessEvent_convolution C M P obs0 ev
         else ProcessEvent_aget C M P obs0 ev)
      else ProcessEvent_allPulses C M P obs0 ev)"

section \<open>The claims in the words of the specification\<close>

text \<open>The residual RMS of the specification: the root of the mean, over the bins of the window
  from \<open>first_bin\<close> up to but without \<open>end_bin\<close>, of the squared difference of observed value
  and model, the mean taken over the width of the window.\<close>

definition residual_rms :: "(int \<Rightarrow> real) \<Rightarrow> (real \<Rightarrow> real) \<Rightarrow> int \<Rightarrow> int \<Rightarrow> real" where
  "residual_rms observed model first_bin end_bin =
     sqrt ((\<Sum>j \<in> {first_bin ..< end_bin}. (observed j - model (real_of_int j))\<^sup>2)
           / real_of_int (end_bin - first_bin))"

text \<open>The low average width as the specification words it: the sum of the \<open>min(nSignals, q)\<close>
  smallest widths among the \<open>q\<close> qualifying ones, divided by \<open>nSignals\<close>, and 0 when \<open>q\<close> is
  zero.\<close>

definition GetLowAverageWidth_spec ::
  "SignalMethods \<Rightarrow> TRestRawSignalEvent \<Rightarrow> int \<Rightarrow> real \<Rightarrow> Double" where
  "GetLowAverageWidth_spec M ev nSignals minPeakAmplitude =
     (let widths = map (\<lambda>s. real_of_int (GetMaxPeakWidth M s))
                     (filter (\<lambda>s. GetMaxPeakValue M s > minPeakAmplitude) (fSignal ev));
          q = int (length widths)
      in if q = 0 then Finite 0
         else ddiv (Finite (sum_list (take (nat (min nSignals q)) (sort widths)))) (of_Int_t nSignals))"

text \<open>The number of points over threshold that the selection of good signals finds for a
  Waveform of the Event, after the baseline of the configured range.\<close>

definition points_over_threshold_count ::
  "SignalMethods \<Rightarrow> TRestRawSignalFitEventProcess \<Rightarrow> TRestRawSignal \<Rightarrow> nat" where
  "points_over_threshold_count M P s =
     length (fPointsOverThreshold
       (InitializePointsOverThreshold M (fPointThreshold P, fSignalThreshold P) (fPointsOverThreshold' P)
         (CalculateBaseLine M (fst (fBaseLineRange' P)) (snd (fBaseLineRange' P)) s)))"


text \<open>The five maps of the local variables, the names under which they are published, and
  the loop of the selection of good signals over the Waveforms of an Event.\<close>

definition fit_maps :: "Locals \<Rightarrow> (int \<rightharpoonup> Double) list" where
  "fit_maps L = [amplitudeFit L, shapingtimeFit L, StartPositionFit L, variancegaussFit L,
                 ratiosigmaamplitudeFit L]"

definition fit_map_names :: "string list" where
  "fit_map_names = [''FitAmplitude_map'', ''FitShapingTime_map'', ''FitStartPosition_map'',
                    ''FitVarianceGauss_map'', ''FitRatioSigmaMaxPeak_map'']"

definition good_loop ::
  "Collaborators \<Rightarrow> SignalMethods \<Rightarrow> TRestRawSignalFitEventProcess \<Rightarrow> TRestRawSignalEvent
     \<Rightarrow> TRestRawSignal list \<times> Locals" where
  "good_loop C M P ev = for_signals (fit_good_body C M P) 0 (fSignal ev) (initial_Locals ev)"

section \<open>Concrete Waveforms and Events\<close>

text \<open>
  An instance of the Waveform methods, for evaluating the functions on concrete Events: the
  integral is the sum of the samples, the peak value the largest sample (0 for no sample),
  the peak bin the first bin that holds it, the peak width the number of positive samples,
  the baseline 0 with sigma 0, the points over threshold the bins whose sample exceeds the
  point threshold, and a read of a bin outside the samples gives 0.
\<close>

definition sample_at :: "TRestRawSignal \<Rightarrow> int \<Rightarrow> real" where
  "sample_at s i = (if 0 \<le> i \<and> i < int (length (fSignalData s)) then fSignalData s ! nat i else 0)"

definition example_methods :: SignalMethods where
  "example_methods =
     \<lparr>GetIntegral = (\<lambda>s. sum_list (fSignalData s)),
      GetMaxPeakValue = (\<lambda>s. fold max (fSignalData s) 0),
      GetMaxPeakWidth = (\<lambda>s. int (length (filter (\<lambda>x. 0 < x) (fSignalData s)))),
      GetMaxPeakBin = (\<lambda>s. int (length (takeWhile (\<lambda>x. x < fold max (fSignalData s) 0) (fSignalData s)))),
      GetData = sample_at,
      GetRawData = sample_at,
      GetNumberOfPoints = (\<lambda>s. int (length (fSignalData s))),
      BaseLineOf = (\<lambda>s a b. (0, 0)),
      PointsOverThresholdOf =
        (\<lambda>s thr n. filter (\<lambda>i. sample_at s i > fst thr) [0 .. int (length (fSignalData s)) - 1]),
      NewSignal =
        \<lparr>fSignalID = -1, fSignalData = [], fBaseLine = 0, fBaseLineSigma = 0,
         fPointsOverThreshold = [], fSignalRange = (0, 0)\<rparr>\<rparr>"

definition waveform :: "int \<Rightarrow> real list \<Rightarrow> TRestRawSignal" where
  "waveform sID samples = (new_TRestRawSignal example_methods)\<lparr>fSignalID := sID, fSignalData := samples\<rparr>"

definition event_of :: "TRestRawSignal list \<Rightarrow> TRestRawSignalEvent" where
  "event_of sigs =
     \<lparr>fSignal = sigs, fBaseLineRange = (0, 0), fRange = (0, 0),
      fMinValue = 10 ^ 10, fMaxValue = - (10 ^ 10), fMinTime = 10 ^ 10, fMaxTime = - (10 ^ 10)\<rparr>"

text \<open>
  An instance of the collaborators: the bin \<open>j\<close> of a histogram of unit bin width from 0
  holds the weights filled at \<open>x\<close> from \<open>j - 1\<close> up to \<open>j\<close>, the fit leaves the function that
  is 0 everywhere with the parameter values it was given, and the cut keeps every Event.
  The three configurations fit all Waveforms with the convolution, select the good signals,
  fit with the AGET function, and fit the summed pulse.
\<close>

definition example_collaborators :: Collaborators where
  "example_collaborators =
     \<lparr>Fit = (\<lambda>call. \<lparr>Eval = (\<lambda>x. 0),
                       GetParameter = (\<lambda>k. if k < length (fit_parameters call) then fit_parameters call ! k else 0),
                       GetParError = (\<lambda>k. 1),
                       GetChisquare = 0\<rparr>),
      GetBinContent =
        (\<lambda>h j. if 1 \<le> j \<and> j \<le> nbinsx h
                then sum_list (map snd (filter (\<lambda>xw. \<lfloor>fst xw\<rfloor> + 1 = j) (Fills h))) else 0),
      ApplyCut = (\<lambda>obs. False)\<rparr>"

definition fit_all_process :: TRestRawSignalFitEventProcess where
  "fit_all_process =
     \<lparr>fAgetFit = False, fAddAllPulses = False,
      fShapingFixed = 0, fStartPositionFixed = 0, fVarianceFixed = 0, fAmplitudeFixed = 0,
      fShapingInitialValue = 0, fStartPositionInitialValue = 0, fVarianceInitialValue = 0,
      fAmplitudeInitialValue = 0,
      fBaseLineRange' = (0, 0), fPointsOverThreshold' = 0, fPointThreshold = 0, fSignalThreshold = 0\<rparr>"

definition good_signals_process :: TRestRawSignalFitEventProcess where
  "good_signals_process =
     fit_all_process\<lparr>fBaseLineRange' := (20, 150), fPointsOverThreshold' := 40,
                     fPointThreshold := 6, fSignalThreshold := 3\<rparr>"

definition aget_process :: TRestRawSignalFitEventProcess where
  "aget_process = fit_all_process\<lparr>fAgetFit := True\<rparr>"


section \<open>Properties of the Event\<close>

lemma fold_add_sum: "fold (\<lambda>s sum. sum + f s) xs a = a + sum_list (map f xs)" for a :: real
  by (induction xs arbitrary: a) simp_all

lemma GetSignalIndex_from_found:
  "(GetSignalIndex_from i ss sID \<noteq> -1) = (sID \<in> fSignalID ` set ss)" if "0 \<le> i"
  using that by (induction ss arbitrary: i) auto

lemma signalIDExists_iff: "signalIDExists ev sID = (sID \<in> fSignalID ` set (fSignal ev))"
  by (simp add: signalIDExists_def GetSignalIndex_def GetSignalIndex_from_found)

text \<open>
  C1: \<open>GetMaxSignal\<close> returns null for an Event without Waveform and otherwise the Waveform
  of largest integral, the first one among equals. On the Event that holds exactly one
  Waveform, of samples 2 and 3 (integral 5), the comparison \<open>max < integ\<close> is never true,
  \<open>sId\<close> is never assigned, and the function returns the address at an indeterminate index
  instead of the only Waveform.
\<close>

theorem GetMaxSignal_single_waveform:
  "GetMaxSignal example_methods (event_of [waveform 7 [2, 3]]) = IndeterminateIndex"
  by (simp add: GetMaxSignal_def event_of_def waveform_def example_methods_def to_Int_t_def)

text \<open>The same happens on an Event of two Waveforms whose first Waveform holds the largest
  integral, 5 against 1.\<close>

lemma GetMaxSignal_first_is_max:
  "GetMaxSignal example_methods (event_of [waveform 7 [2, 3], waveform 8 [1]]) = IndeterminateIndex"
  by (simp add: GetMaxSignal_def event_of_def waveform_def example_methods_def to_Int_t_def)

text \<open>
  C2: for an Event with zero Waveforms, \<open>GetBaseLineAverage\<close> and \<open>GetBaseLineSigmaAverage\<close>
  return 0 and no non-finite value. On the Event without Waveform both divide 0 by the
  count 0 and return NaN.
\<close>

theorem GetBaseLineAverage_empty:
  "GetBaseLineAverage (event_of []) = NaN \<and> GetBaseLineSigmaAverage (event_of []) = NaN"
  by (simp add: GetBaseLineAverage_def GetBaseLineSigmaAverage_def event_of_def
      GetNumberOfSignals_def of_Int_t_def)

text \<open>
  C6: \<open>AddSignal\<close> with a Waveform whose ID is already carried by a Waveform of the Event
  leaves the Event as it is (its Waveforms, their number and every other field) and prints
  the warning; it is not an error.
\<close>

theorem AddSignal_duplicate:
  assumes "\<exists>t \<in> set (fSignal ev). fSignalID t = fSignalID s"
  shows "AddSignal M ev s = (ev, [Warning_already_exists (fSignalID s)])"
proof -
  from assms have "signalIDExists ev (fSignalID s)"
    unfolding signalIDExists_iff by (metis imageI)
  then show ?thesis by (simp add: AddSignal_def)
qed

theorem AddSignal_duplicate_witness:
  "(\<exists>t \<in> set (fSignal (event_of [waveform 3 [1, 2], waveform 5 [4]])).
       fSignalID t = fSignalID (waveform 5 [9, 9]))
   \<and> AddSignal example_methods (event_of [waveform 3 [1, 2], waveform 5 [4]]) (waveform 5 [9, 9])
       = (event_of [waveform 3 [1, 2], waveform 5 [4]], [Warning_already_exists 5])"
proof -
  have h: "\<exists>t \<in> set (fSignal (event_of [waveform 3 [1, 2], waveform 5 [4]])).
              fSignalID t = fSignalID (waveform 5 [9, 9])"
    by (simp add: event_of_def waveform_def)
  show ?thesis using h AddSignal_duplicate [OF h, of example_methods]
    by (simp add: waveform_def)
qed

text \<open>The IDs of the Waveforms of an Event stay distinct under \<open>AddSignal\<close>.\<close>

lemma AddSignal_keeps_IDs_distinct:
  assumes "distinct (map fSignalID (fSignal ev))"
  shows "distinct (map fSignalID (fSignal (fst (AddSignal M ev s))))"
  using assms
  by (simp add: AddSignal_def signalIDExists_iff Let_def SetRange_def CalculateBaseLine_def)

text \<open>
  C7: for an Event of N Waveforms, \<open>GetIntegral\<close> of the Event is the sum over the N
  Waveforms of the integral of each.
\<close>

theorem GetIntegral_event_sum:
  "GetIntegral_event M ev = (\<Sum>s\<leftarrow>fSignal ev. GetIntegral M s)"
  by (simp add: GetIntegral_event_def fold_add_sum)

lemma fold_unqualified:
  "\<forall>s \<in> set xs. \<not> P s \<Longrightarrow> fold (\<lambda>s a. if P s then f s a else a) xs a = a"
  by (induction xs arbitrary: a) simp_all

lemma GetAverageWidth_fold_unqualified:
  "\<forall>s \<in> set xs. \<not> P s \<Longrightarrow>
   fold (\<lambda>s (avg, n). if P s then (avg + f s, n + 1) else (avg, n)) xs st = st"
  by (induction xs arbitrary: st) (simp_all split: prod.splits)

text \<open>
  C3 (amended): when no Waveform of the Event has a peak value above the amplitude filter,
  \<open>GetAverageWidth\<close> returns 0 and \<open>GetLowestWidth\<close> returns the value 10000000 that its
  search for the minimum starts from.
\<close>

theorem widths_none_qualify:
  assumes "\<forall>s \<in> set (fSignal ev). \<not> GetMaxPeakValue M s > minPeakAmplitude"
  shows "GetLowestWidth M ev minPeakAmplitude = 10000000
       \<and> GetAverageWidth M ev minPeakAmplitude = Finite 0"
proof
  show "GetLowestWidth M ev minPeakAmplitude = 10000000"
    unfolding GetLowestWidth_def using assms by (rule fold_unqualified)
  have "fold (\<lambda>s (avg, n).
                    if GetMaxPeakValue M s > minPeakAmplitude
                    then (avg + real_of_int (GetMaxPeakWidth M s), n + 1)
                    else (avg, n))
                 (fSignal ev) (0, 0 :: int) = (0, 0)"
    using assms by (rule GetAverageWidth_fold_unqualified)
  then show "GetAverageWidth M ev minPeakAmplitude = Finite 0"
    by (simp add: GetAverageWidth_def)
qed

theorem widths_none_qualify_witness:
  "GetLowestWidth example_methods (event_of [waveform 1 [3, 8], waveform 2 [5]]) 10 = 10000000
   \<and> GetAverageWidth example_methods (event_of [waveform 1 [3, 8], waveform 2 [5]]) 10 = Finite 0"
proof -
  have h: "\<forall>s \<in> set (fSignal (event_of [waveform 1 [3, 8], waveform 2 [5]])).
       \<not> GetMaxPeakValue example_methods s > 10"
    by (simp add: event_of_def waveform_def example_methods_def)
  show ?thesis using widths_none_qualify [OF h] by simp
qed

text \<open>C3 as stated fails: one Waveform of peak 8, filter 10, and \<open>GetLowestWidth\<close> is not 0.\<close>

theorem GetLowestWidth_counterexample:
  "\<not> GetMaxPeakValue example_methods (waveform 1 [3, 8]) > 10
   \<and> GetLowestWidth example_methods (event_of [waveform 1 [3, 8]]) 10 \<noteq> 0"
  by (simp add: GetLowestWidth_def event_of_def waveform_def example_methods_def)

lemma qualifying_widths_fold:
  "fold (\<lambda>s widths. if P s then widths @ [f s] else widths) xs acc = acc @ map f (filter P xs)"
  by (induction xs arbitrary: acc) simp_all

lemma qualifying_widths_eq:
  "qualifying_widths M ev a =
     map (\<lambda>s. real_of_int (GetMaxPeakWidth M s)) (filter (\<lambda>s. GetMaxPeakValue M s > a) (fSignal ev))"
  by (simp add: qualifying_widths_def qualifying_widths_fold)

lemma fold_index_sum:
  "k \<le> length xs \<Longrightarrow> fold (\<lambda>n avg. avg + xs ! n) [0 ..< k] (0::real) = sum_list (take k xs)"
proof (induction k)
  case 0
  then show ?case by simp
next
  case (Suc k)
  then show ?case by (simp add: take_Suc_conv_app_nth)
qed

lemma unsigned_cast_nonneg: "0 \<le> n \<Longrightarrow> n < 2 ^ 31 \<Longrightarrow> n mod 2 ^ 32 = n" for n :: int
  by simp

lemma unsigned_cast_neg: "- (2 ^ 31) \<le> n \<Longrightarrow> n < 0 \<Longrightarrow> n mod 2 ^ 32 = n + 2 ^ 32" for n :: int
proof -
  assume a: "- (2 ^ 31) \<le> n" "n < 0"
  have "(n + 2 ^ 32) mod 2 ^ 32 = n + 2 ^ 32"
    using a by (intro mod_pos_pos_trivial) simp_all
  then show ?thesis by simp
qed

lemma nMax_of_cases:
  assumes "length widths < 2 ^ 31" "- (2 ^ 31) \<le> nSignals" "nSignals < 2 ^ 31"
  shows "nMax_of widths nSignals =
           (if 0 \<le> nSignals then min nSignals (int (length widths)) else int (length widths))"
proof (cases "0 \<le> nSignals")
  case True
  with assms show ?thesis by (simp add: nMax_of_def unsigned_cast_nonneg)
next
  case False
  then have m: "nSignals mod 2 ^ 32 = nSignals + 2 ^ 32"
    using assms(2) by (intro unsigned_cast_neg) simp_all
  have "int (length widths) < 2 ^ 31" using assms(1) by (simp flip: of_nat_less_iff)
  then have "int (length widths) < nSignals + 2 ^ 32" using assms(2) by simp
  with False m show ?thesis by (simp add: nMax_of_def)
qed

lemma nMax_le_size:
  assumes "length widths < 2 ^ 31" "- (2 ^ 31) \<le> nSignals" "nSignals < 2 ^ 31"
  shows "nMax_of widths nSignals \<le> int (length widths)"
  by (simp add: nMax_of_cases [OF assms])

lemma nMax_of_nonneg:
  assumes "0 \<le> nSignals" "nSignals < 2 ^ 31"
  shows "nMax_of widths nSignals = min nSignals (int (length widths))"
  using assms by (simp add: nMax_of_def unsigned_cast_nonneg)

text \<open>
  C10: with \<open>q\<close> the number of Waveforms whose peak value exceeds the filter,
  \<open>GetLowAverageWidth\<close> returns the sum of the \<open>min(nSignals, q)\<close> smallest widths among
  the \<open>q\<close> qualifying ones, divided by the requested count \<open>nSignals\<close> and not by the number
  of widths summed, and it returns 0 when \<open>q\<close> is zero. A requested count is not negative;
  the upper bound is the range of \<open>Int_t\<close>.
\<close>

theorem GetLowAverageWidth_value:
  assumes "0 \<le> nSignals" and "nSignals < 2 ^ 31"
  shows "GetLowAverageWidth M ev nSignals minPeakAmplitude
         = GetLowAverageWidth_spec M ev nSignals minPeakAmplitude"
proof -
  define widths where "widths = qualifying_widths M ev minPeakAmplitude"
  have w: "widths = map (\<lambda>s. real_of_int (GetMaxPeakWidth M s))
                     (filter (\<lambda>s. GetMaxPeakValue M s > minPeakAmplitude) (fSignal ev))"
    by (simp add: widths_def qualifying_widths_eq)
  have nm: "nMax_of (sort widths) nSignals = min nSignals (int (length widths))"
    using nMax_of_nonneg [OF assms, of "sort widths"] by simp
  have le: "nat (nMax_of (sort widths) nSignals) \<le> length (sort widths)"
    by (simp add: nm)
  have avg: "fold (\<lambda>n avg. avg + sort widths ! n) [0 ..< nat (nMax_of (sort widths) nSignals)] 0
             = sum_list (take (nat (nMax_of (sort widths) nSignals)) (sort widths))"
    using le by (rule fold_index_sum)
  have "GetLowAverageWidth M ev nSignals minPeakAmplitude =
          (if length widths = 0 then Finite 0
           else ddiv (Finite (sum_list (take (nat (min nSignals (int (length widths)))) (sort widths))))
                  (of_Int_t nSignals))"
    by (simp add: GetLowAverageWidth_def Let_def avg [unfolded nm] nm flip: widths_def)
  then show ?thesis
    by (simp add: GetLowAverageWidth_spec_def Let_def flip: w)
qed

theorem GetLowAverageWidth_value_witness:
  "GetLowAverageWidth example_methods
        (event_of [waveform 1 [4, 2, 1], waveform 2 [0, 1], waveform 3 [6, 6]]) 4 2 = Finite (5 / 4)
   \<and> GetLowAverageWidth example_methods
        (event_of [waveform 1 [4, 2, 1], waveform 2 [0, 1], waveform 3 [6, 6]]) 1 2 = Finite 2
   \<and> GetLowAverageWidth example_methods
        (event_of [waveform 1 [4, 2, 1], waveform 2 [0, 1], waveform 3 [6, 6]]) 4 9 = Finite 0"
proof -
  have n0: "(0::int) \<le> 4" "(0::int) \<le> 1" by simp_all
  have n1: "(4::int) < 2 ^ 31" "(1::int) < 2 ^ 31" by simp_all
  show ?thesis
    using GetLowAverageWidth_value [OF n0(1) n1(1), of example_methods
        "event_of [waveform 1 [4, 2, 1], waveform 2 [0, 1], waveform 3 [6, 6]]" 2]
      GetLowAverageWidth_value [OF n0(2) n1(2), of example_methods
        "event_of [waveform 1 [4, 2, 1], waveform 2 [0, 1], waveform 3 [6, 6]]" 2]
      GetLowAverageWidth_value [OF n0(1) n1(1), of example_methods
        "event_of [waveform 1 [4, 2, 1], waveform 2 [0, 1], waveform 3 [6, 6]]" 9]
    by (simp add: GetLowAverageWidth_spec_def event_of_def waveform_def example_methods_def
        of_Int_t_def new_TRestRawSignal_def)
qed

section \<open>Properties of the fit process\<close>

lemma CalculateBaseLine_ID [simp]: "fSignalID (CalculateBaseLine M a b s) = fSignalID s"
  by (simp add: CalculateBaseLine_def)

lemma InitializePointsOverThreshold_ID [simp]:
  "fSignalID (InitializePointsOverThreshold M thr n s) = fSignalID s"
  by (simp add: InitializePointsOverThreshold_def)

lemma SetBaseLineRange_fSignal [simp]: "fSignal (SetBaseLineRange blRange ev) = fSignal ev"
  by (simp add: SetBaseLineRange_def)

lemma fit_good_body_ID: "fSignalID (fst (fit_good_body C M P k s L)) = fSignalID s"
  by (simp add: fit_good_body_def Let_def)

lemma fit_good_body_unqualified:
  assumes "points_over_threshold_count M P s < 2"
  shows "snd (fit_good_body C M P k s L) =
     L\<lparr>amplitudeFit := (amplitudeFit L)(fSignalID s \<mapsto> Finite (- 1)),
       shapingtimeFit := (shapingtimeFit L)(fSignalID s \<mapsto> Finite (- 1)),
       StartPositionFit := (StartPositionFit L)(fSignalID s \<mapsto> Finite (- 1)),
       variancegaussFit := (variancegaussFit L)(fSignalID s \<mapsto> Finite (- 1)),
       ratiosigmaamplitudeFit := (ratiosigmaamplitudeFit L)(fSignalID s \<mapsto> Finite (- 1))\<rparr>"
  using assms by (simp add: fit_good_body_def points_over_threshold_count_def Let_def)

lemma fit_good_body_other:
  "sID \<noteq> fSignalID s \<Longrightarrow>
   map (\<lambda>m. m sID) (fit_maps (snd (fit_good_body C M P k s L))) = map (\<lambda>m. m sID) (fit_maps L)"
  by (simp add: fit_good_body_def fit_convolution_def fit_maps_def Let_def)

lemma fit_good_body_dom:
  "map dom (fit_maps (snd (fit_good_body C M P k s L))) = map (\<lambda>m. insert (fSignalID s) (dom m)) (fit_maps L)"
  by (simp add: fit_good_body_def fit_convolution_def fit_maps_def Let_def)

lemma for_signals_IDs:
  assumes "\<And>k s L. fSignalID (fst (body k s L)) = fSignalID s"
  shows "map fSignalID (fst (for_signals body k sigs L)) = map fSignalID sigs"
proof (induction sigs arbitrary: k L)
  case Nil
  then show ?case by simp
next
  case (Cons s sigs)
  show ?case
    using assms [of k s L] Cons.IH [of "Suc k" "snd (body k s L)"]
    by (simp add: split_beta Let_def)
qed

lemma for_signals_snd_Cons:
  "snd (for_signals body k (s # sigs) L) = snd (for_signals body (k + 1) sigs (snd (body k s L)))"
  by (simp add: split_beta Let_def)

lemma good_loop_other:
  "sID \<notin> fSignalID ` set sigs \<Longrightarrow>
   map (\<lambda>m. m sID) (fit_maps (snd (for_signals (fit_good_body C M P) k sigs L))) = map (\<lambda>m. m sID) (fit_maps L)"
proof (induction sigs arbitrary: k L)
  case Nil
  then show ?case by simp
next
  case (Cons s sigs)
  then have "sID \<noteq> fSignalID s" "sID \<notin> fSignalID ` set sigs" by auto
  then show ?case
    unfolding for_signals_snd_Cons
    using Cons.IH [of "k + 1" "snd (fit_good_body C M P k s L)"]
      fit_good_body_other [of sID s C M P k L]
    by simp
qed

lemma good_loop_dom:
  "map dom (fit_maps (snd (for_signals (fit_good_body C M P) k sigs L))) =
   map (\<lambda>m. dom m \<union> fSignalID ` set sigs) (fit_maps L)"
proof (induction sigs arbitrary: k L)
  case Nil
  then show ?case by simp
next
  case (Cons s sigs)
  have "map dom (fit_maps (snd (for_signals (fit_good_body C M P) (k + 1) sigs (snd (fit_good_body C M P k s L))))) =
        map (\<lambda>m. dom m \<union> fSignalID ` set sigs) (fit_maps (snd (fit_good_body C M P k s L)))"
    by (rule Cons.IH)
  also have "\<dots> = map ((\<lambda>d. d \<union> fSignalID ` set sigs) \<circ> dom) (fit_maps (snd (fit_good_body C M P k s L)))"
    by (simp add: comp_def)
  also have "\<dots> = map (\<lambda>d. d \<union> fSignalID ` set sigs) (map dom (fit_maps (snd (fit_good_body C M P k s L))))"
    by simp
  also have "\<dots> = map (\<lambda>m. dom m \<union> fSignalID ` set (s # sigs)) (fit_maps L)"
    unfolding fit_good_body_dom by simp
  finally show ?case unfolding for_signals_snd_Cons .
qed

lemma good_loop_sentinel:
  assumes "distinct (map fSignalID sigs)" "s \<in> set sigs" "points_over_threshold_count M P s < 2"
  shows "map (\<lambda>m. m (fSignalID s)) (fit_maps (snd (for_signals (fit_good_body C M P) k sigs L)))
         = replicate 5 (Some (Finite (- 1)))"
  using assms
proof (induction sigs arbitrary: k L)
  case Nil
  then show ?case by simp
next
  case (Cons t sigs)
  show ?case
  proof (cases "s = t")
    case True
    with Cons.prems have "fSignalID s \<notin> fSignalID ` set sigs" by simp
    then have "map (\<lambda>m. m (fSignalID s)) (fit_maps (snd (for_signals (fit_good_body C M P) (k + 1) sigs (snd (fit_good_body C M P k t L)))))
             = map (\<lambda>m. m (fSignalID s)) (fit_maps (snd (fit_good_body C M P k t L)))"
      by (rule good_loop_other)
    also have "\<dots> = replicate 5 (Some (Finite (- 1)))"
      using Cons.prems(3) True
      by (simp add: fit_good_body_unqualified fit_maps_def numeral_eq_Suc)
    finally show ?thesis unfolding for_signals_snd_Cons .
  next
    case False
    with Cons.prems have "distinct (map fSignalID sigs)" "s \<in> set sigs" by auto
    then show ?thesis
      unfolding for_signals_snd_Cons using Cons.prems(3) by (rule Cons.IH)
  qed
qed


lemma ProcessEvent_good_maps:
  assumes "\<not> fAddAllPulses P" "\<not> fAgetFit P" "\<not> fit_all_signals P"
  shows "map (observables (ProcessEvent C M P obs ev))
           [''FitAmplitude_map'', ''FitShapingTime_map'', ''FitStartPosition_map'',
            ''FitVarianceGauss_map'', ''FitRatioSigmaMaxPeak_map'']
         = map (\<lambda>m. Some (Map_value m)) (fit_maps (snd (good_loop C M P ev)))"
  using assms
  by (simp add: ProcessEvent_def ProcessEvent_convolution_def good_loop_def finish_def publish_maps_def
      SetObservableValue_def fit_maps_def split_beta Let_def)

lemma ProcessEvent_good_returned:
  assumes "\<not> fAddAllPulses P" "\<not> fAgetFit P" "\<not> fit_all_signals P"
  shows "returned (ProcessEvent C M P obs ev) =
           (if ApplyCut C (observables (ProcessEvent C M P obs ev)) then None
            else Some ((SetBaseLineRange (fBaseLineRange' P) ev)\<lparr>fSignal := fst (good_loop C M P ev)\<rparr>))"
  using assms
  by (simp add: ProcessEvent_def ProcessEvent_convolution_def good_loop_def finish_def
       split_beta Let_def)

lemma ProcessEvent_good_statistics:
  assumes "\<not> fAddAllPulses P" "\<not> fAgetFit P" "\<not> fit_all_signals P"
  shows "map (observables (ProcessEvent C M P obs ev))
           [''FitSigmaMean'', ''FitSigmaStdDev'', ''FitChiSquareMean'', ''FitRatioSigmaMaxPeakMean'']
         = (let (a, b, c, d) = event_statistics P
                 ((SetBaseLineRange (fBaseLineRange' P) ev)\<lparr>fSignal := fst (good_loop C M P ev)\<rparr>)
                 (snd (good_loop C M P ev))
            in [Some (Value a), Some (Value b), Some (Value c), Some (Value d)])"
  using assms
  by (simp add: ProcessEvent_def ProcessEvent_convolution_def good_loop_def finish_def
      SetObservableValue_def split_beta Let_def)


lemma good_loop_IDs: "map fSignalID (fst (good_loop C M P ev)) = map fSignalID (fSignal ev)"
  unfolding good_loop_def by (rule for_signals_IDs) (rule fit_good_body_ID)

text \<open>
  C5: in the selection of good signals, for a Waveform of the Event with fewer than 2 points
  over threshold, each of the five published maps (amplitude, shaping time, start position,
  variance, ratio of sigma to peak) holds -1 at the ID of the Waveform and has an entry for
  the ID of every Waveform of the Event; and the Event is returned unless the cut matches,
  whether or not any Waveform qualifies. The IDs of the Waveforms of an Event are distinct.
\<close>

theorem good_signal_selection_sentinel:
  assumes "\<not> fAddAllPulses P" and "\<not> fAgetFit P" and "\<not> fit_all_signals P"
    and "distinct (map fSignalID (fSignal ev))"
  shows "(\<forall>name \<in> set fit_map_names.
            \<exists>m. observables (ProcessEvent C M P obs ev) name = Some (Map_value m)
               \<and> fSignalID ` set (fSignal ev) \<subseteq> dom m
               \<and> (\<forall>s \<in> set (fSignal ev).
                     points_over_threshold_count M P s < 2 \<longrightarrow> m (fSignalID s) = Some (Finite (- 1))))
       \<and> (\<exists>ev'. map fSignalID (fSignal ev') = map fSignalID (fSignal ev)
               \<and> returned (ProcessEvent C M P obs ev) =
                   (if ApplyCut C (observables (ProcessEvent C M P obs ev)) then None else Some ev'))"
proof
  let ?L = "snd (good_loop C M P ev)"
  have published: "map (observables (ProcessEvent C M P obs ev)) fit_map_names
                   = map (\<lambda>m. Some (Map_value m)) (fit_maps ?L)"
    unfolding fit_map_names_def using assms(1-3) by (rule ProcessEvent_good_maps)
  have sentinel: "map (\<lambda>m. m (fSignalID s)) (fit_maps ?L) = replicate 5 (Some (Finite (- 1)))"
    if "s \<in> set (fSignal ev)" and "points_over_threshold_count M P s < 2" for s
    unfolding good_loop_def using assms(4) that by (rule good_loop_sentinel)
  have entries: "map dom (fit_maps ?L)
                 = map (\<lambda>m. dom m \<union> fSignalID ` set (fSignal ev)) (fit_maps (initial_Locals ev))"
    unfolding good_loop_def by (rule good_loop_dom)
  show "\<forall>name \<in> set fit_map_names.
            \<exists>m. observables (ProcessEvent C M P obs ev) name = Some (Map_value m)
               \<and> fSignalID ` set (fSignal ev) \<subseteq> dom m
               \<and> (\<forall>s \<in> set (fSignal ev).
                     points_over_threshold_count M P s < 2 \<longrightarrow> m (fSignalID s) = Some (Finite (- 1)))"
    using published sentinel entries
    by (simp add: fit_map_names_def fit_maps_def numeral_eq_Suc)
  let ?ev = "(SetBaseLineRange (fBaseLineRange' P) ev)\<lparr>fSignal := fst (good_loop C M P ev)\<rparr>"
  have "map fSignalID (fSignal ?ev) = map fSignalID (fSignal ev)"
    by (simp add: good_loop_IDs)
  moreover have "returned (ProcessEvent C M P obs ev) =
                   (if ApplyCut C (observables (ProcessEvent C M P obs ev)) then None else Some ?ev)"
    using assms(1-3) by (rule ProcessEvent_good_returned)
  ultimately show "\<exists>ev'. map fSignalID (fSignal ev') = map fSignalID (fSignal ev)
               \<and> returned (ProcessEvent C M P obs ev) =
                   (if ApplyCut C (observables (ProcessEvent C M P obs ev)) then None else Some ev')"
    by blast
qed

lemma good_loop_none_qualify:
  assumes "\<forall>s \<in> set sigs. points_over_threshold_count M P s < 2"
  shows "SigmaMean (snd (for_signals (fit_good_body C M P) k sigs L)) = SigmaMean L
       \<and> Sigma (snd (for_signals (fit_good_body C M P) k sigs L)) = Sigma L
       \<and> ChiSquareMean (snd (for_signals (fit_good_body C M P) k sigs L)) = ChiSquareMean L
       \<and> RatioSigmaMaxPeakMean (snd (for_signals (fit_good_body C M P) k sigs L)) = RatioSigmaMaxPeakMean L
       \<and> goodSig (snd (for_signals (fit_good_body C M P) k sigs L)) = goodSig L"
  using assms
proof (induction sigs arbitrary: k L)
  case Nil
  then show ?case by simp
next
  case (Cons t sigs)
  then have t: "points_over_threshold_count M P t < 2"
    and rest: "\<forall>s \<in> set sigs. points_over_threshold_count M P s < 2" by simp_all
  show ?case
    unfolding for_signals_snd_Cons
    using Cons.IH [OF rest, of "k + 1" "snd (fit_good_body C M P k t L)"]
    by (simp add: fit_good_body_unqualified [OF t])
qed

text \<open>
  C9: in the selection of good signals, when no Waveform of the Event has 2 points over
  threshold, \<open>FitSigmaMean\<close>, \<open>FitSigmaStdDev\<close>, \<open>FitChiSquareMean\<close> and
  \<open>FitRatioSigmaMaxPeakMean\<close> are divided by the count 0 of good signals without a guard,
  and each is published as NaN.
\<close>

theorem good_signal_selection_none_qualify:
  assumes "\<not> fAddAllPulses P" and "\<not> fAgetFit P" and "\<not> fit_all_signals P"
    and "\<forall>s \<in> set (fSignal ev). points_over_threshold_count M P s < 2"
  shows "observables (ProcessEvent C M P obs ev) ''FitSigmaMean'' = Some (Value NaN)
       \<and> observables (ProcessEvent C M P obs ev) ''FitSigmaStdDev'' = Some (Value NaN)
       \<and> observables (ProcessEvent C M P obs ev) ''FitChiSquareMean'' = Some (Value NaN)
       \<and> observables (ProcessEvent C M P obs ev) ''FitRatioSigmaMaxPeakMean'' = Some (Value NaN)"
proof -
  let ?L = "snd (good_loop C M P ev)"
  let ?ev = "(SetBaseLineRange (fBaseLineRange' P) ev)\<lparr>fSignal := fst (good_loop C M P ev)\<rparr>"
  have frame: "SigmaMean ?L = Finite 0" "Sigma ?L = replicate (length (fSignal ev)) (Finite 0)"
    "ChiSquareMean ?L = Finite 0" "RatioSigmaMaxPeakMean ?L = Finite 0" "goodSig ?L = 0"
    using good_loop_none_qualify [OF assms(4), of C 0 "initial_Locals ev"]
    by (simp_all add: good_loop_def initial_Locals_def GetNumberOfSignals_def)
  have "length (map fSignalID (fst (good_loop C M P ev))) = length (map fSignalID (fSignal ev))"
    by (simp only: good_loop_IDs)
  then have n: "GetNumberOfSignals ?ev = int (length (fSignal ev))"
    by (simp add: GetNumberOfSignals_def)
  have skip: "fold (\<lambda>k sd. if dne (Sigma ?L ! k) (Finite 0)
                            then dadd sd (dmul (dsub (Sigma ?L ! k) x) (dsub (Sigma ?L ! k) x))
                            else sd)
                   [0 ..< length (fSignal ev)] (Finite 0) = Finite 0" for x
    by (rule fold_unqualified) (simp add: frame)
  have stats: "event_statistics P ?ev ?L = (NaN, NaN, NaN, NaN)"
    using assms(3) by (simp add: event_statistics_def n frame(1,3,4,5) skip of_Int_t_def Let_def)
  show ?thesis
    using ProcessEvent_good_statistics [OF assms(1-3), of C M obs ev]
    by (simp add: stats)
qed


lemma example_count_1:
  "points_over_threshold_count example_methods good_signals_process (waveform 2 [1, 7]) = 1"
  by (simp add: points_over_threshold_count_def example_methods_def good_signals_process_def
      fit_all_process_def waveform_def new_TRestRawSignal_def InitializePointsOverThreshold_def
      CalculateBaseLine_def sample_at_def upto.simps [of 0] upto.simps [of 1])

lemma example_count_2:
  "points_over_threshold_count example_methods good_signals_process (waveform 1 [0, 9, 8, 1]) = 2"
  by (simp add: points_over_threshold_count_def example_methods_def good_signals_process_def
      fit_all_process_def waveform_def new_TRestRawSignal_def InitializePointsOverThreshold_def
      CalculateBaseLine_def sample_at_def upto.simps [of 0] upto.simps [of 1])

theorem good_signal_selection_sentinel_witness:
  "points_over_threshold_count example_methods good_signals_process (waveform 1 [0, 9, 8, 1]) = 2
   \<and> points_over_threshold_count example_methods good_signals_process (waveform 2 [1, 7]) = 1
   \<and> (\<exists>m. observables (ProcessEvent example_collaborators example_methods good_signals_process Map.empty
                 (event_of [waveform 1 [0, 9, 8, 1], waveform 2 [1, 7]])) ''FitAmplitude_map''
               = Some (Map_value m)
            \<and> m 2 = Some (Finite (- 1)) \<and> {1, 2} \<subseteq> dom m)
   \<and> (\<exists>m. observables (ProcessEvent example_collaborators example_methods good_signals_process Map.empty
                 (event_of [waveform 1 [0, 9, 8, 1], waveform 2 [1, 7]])) ''FitRatioSigmaMaxPeak_map''
               = Some (Map_value m)
            \<and> m 2 = Some (Finite (- 1)) \<and> {1, 2} \<subseteq> dom m)
   \<and> returned (ProcessEvent example_collaborators example_methods good_signals_process Map.empty
                 (event_of [waveform 1 [0, 9, 8, 1], waveform 2 [1, 7]])) \<noteq> None"
proof -
  let ?ev = "event_of [waveform 1 [0, 9, 8, 1], waveform 2 [1, 7]]"
  have h1: "\<not> fAddAllPulses good_signals_process" and h2: "\<not> fAgetFit good_signals_process"
    and h3: "\<not> fit_all_signals good_signals_process"
    by (simp_all add: good_signals_process_def fit_all_process_def fit_all_signals_def)
  have h4: "distinct (map fSignalID (fSignal ?ev))"
    by (simp add: event_of_def waveform_def)
  have ev: "fSignal ?ev = [waveform 1 [0, 9, 8, 1], waveform 2 [1, 7]]"
    by (simp add: event_of_def)
  have ids: "fSignalID (waveform 1 [0, 9, 8, 1]) = 1" "fSignalID (waveform 2 [1, 7]) = 2"
    by (simp_all add: waveform_def)
  have cut: "\<not> ApplyCut example_collaborators obs" for obs
    by (simp add: example_collaborators_def)
  show ?thesis
    using good_signal_selection_sentinel [OF h1 h2 h3 h4, of example_collaborators example_methods Map.empty]
    by (simp add: ev ids example_count_1 example_count_2 cut fit_map_names_def) blast
qed

theorem good_signal_selection_none_qualify_witness:
  "observables (ProcessEvent example_collaborators example_methods good_signals_process Map.empty
        (event_of [waveform 2 [1, 7]])) ''FitSigmaMean'' = Some (Value NaN)
   \<and> observables (ProcessEvent example_collaborators example_methods good_signals_process Map.empty
        (event_of [waveform 2 [1, 7]])) ''FitSigmaStdDev'' = Some (Value NaN)
   \<and> observables (ProcessEvent example_collaborators example_methods good_signals_process Map.empty
        (event_of [waveform 2 [1, 7]])) ''FitChiSquareMean'' = Some (Value NaN)
   \<and> observables (ProcessEvent example_collaborators example_methods good_signals_process Map.empty
        (event_of [waveform 2 [1, 7]])) ''FitRatioSigmaMaxPeakMean'' = Some (Value NaN)"
proof -
  have h1: "\<not> fAddAllPulses good_signals_process" and h2: "\<not> fAgetFit good_signals_process"
    and h3: "\<not> fit_all_signals good_signals_process"
    by (simp_all add: good_signals_process_def fit_all_process_def fit_all_signals_def)
  have h4: "\<forall>s \<in> set (fSignal (event_of [waveform 2 [1, 7]])).
         points_over_threshold_count example_methods good_signals_process s < 2"
    by (simp add: event_of_def example_count_1)
  show ?thesis
    using good_signal_selection_none_qualify [OF h1 h2 h3 h4, of example_collaborators Map.empty]
    by simp
qed










lemma squared_residuals_sum:
  "squared_residuals C h f first_bin end_bin =
     (\<Sum>j \<in> {first_bin ..< end_bin}. (GetBinContent C h j - Eval f (real_of_int j))\<^sup>2)"
proof -
  have "{first_bin ..< end_bin} = set [first_bin .. end_bin - 1]" by auto
  then show ?thesis
    by (simp add: squared_residuals_def fold_add_sum power2_eq_square
        sum_set_upto_conv_sum_list_int del: set_upto)
qed

lemma squared_residuals_nonneg: "0 \<le> squared_residuals C h f first_bin end_bin"
  unfolding squared_residuals_sum by (rule sum_nonneg) simp

lemma Sigma_convolution_rms:
  "Sigma_convolution C h fit_conv MaxPeakBin =
     Finite (residual_rms (GetBinContent C h) (Eval fit_conv)
               (MaxPeakBin - MinBinRange) (MaxPeakBin + MaxBinRange))"
  using squared_residuals_nonneg [of C h fit_conv "MaxPeakBin - 45" "MaxPeakBin + 70"]
  by (simp add: Sigma_convolution_def residual_rms_def squared_residuals_sum of_Int_t_def
      MinBinRange_def MaxBinRange_def not_less)

lemma Sigma_aget_rms:
  "Sigma_aget C h f MaxPeakBin =
     Finite (residual_rms (GetBinContent C h) (Eval f) (MaxPeakBin - 145) (MaxPeakBin + 165))"
  using squared_residuals_nonneg [of C h f "MaxPeakBin - 145" "MaxPeakBin + 165"]
  by (simp add: Sigma_aget_def residual_rms_def squared_residuals_sum of_Int_t_def not_less)

lemma dadd_zero_left: "dadd (Finite 0) x = x"
  by (cases x) simp_all

lemma ddiv_one: "ddiv x (Finite 1) = x"
  by (cases x) simp_all

lemma aget_call_histogram: "fit_histogram (aget_call M P s) = signal_histogram M s"
  by (simp add: aget_call_def Let_def)

lemma ProcessEvent_aget_single:
  assumes "fAgetFit P" "\<not> fAddAllPulses P" "fSignal ev = [s]"
  shows "observables (ProcessEvent C M P obs ev) ''FitSigmaMean'' =
           Some (Value (Sigma_aget C (signal_histogram M (CalculateBaseLine M 20 150 s))
                          (Fit C (aget_call M P (CalculateBaseLine M 20 150 s)))
                          (GetMaxPeakBin M (CalculateBaseLine M 20 150 s))))"
  using assms
  by (simp add: ProcessEvent_def ProcessEvent_aget_def fit_aget_body_def finish_def
      SetObservableValue_def initial_Locals_def GetNumberOfSignals_def of_Int_t_def
      split_beta Let_def aget_call_histogram dadd_zero_left ddiv_one)

lemma convolution_call_histogram: "fit_histogram (convolution_call M P s) = signal_histogram M s"
  by (simp add: convolution_call_def Let_def)

lemma ProcessEvent_convolution_single:
  assumes "\<not> fAgetFit P" "\<not> fAddAllPulses P" "fit_all_signals P" "fSignal ev = [s]"
  shows "observables (ProcessEvent C M P obs ev) ''FitSigmaMean'' =
           Some (Value (Sigma_convolution C (signal_histogram M (CalculateBaseLine M 20 150 s))
                          (Fit C (convolution_call M P (CalculateBaseLine M 20 150 s)))
                          (GetMaxPeakBin M (CalculateBaseLine M 20 150 s))))"
  using assms
  by (simp add: ProcessEvent_def ProcessEvent_convolution_def fit_all_body_def fit_convolution_def
      finish_def event_statistics_def
      SetObservableValue_def initial_Locals_def GetNumberOfSignals_def of_Int_t_def
      split_beta Let_def convolution_call_histogram dadd_zero_left ddiv_one)

text \<open>The three branches of the convolution fit take the residual over the window of the fit:
  the residual of a Waveform fitted with the convolution, and the \<open>FitSigmaMean\<close> of the
  summed pulse.\<close>

lemma convolution_residual_over_fit_window:
  "Sigma_convolution C (fit_histogram (convolution_call M P s)) fit_conv (GetMaxPeakBin M s) =
     Finite (residual_rms (GetBinContent C (signal_histogram M s)) (Eval fit_conv)
               (fit_xmin (convolution_call M P s)) (fit_xmax (convolution_call M P s)))"
  by (simp add: Sigma_convolution_rms convolution_call_def Let_def)

lemma allPulses_residual_over_fit_window:
  assumes "fAddAllPulses P"
    and "allSig = CalculateBaseLine M (fst (fBaseLineRange' P)) (snd (fBaseLineRange' P))
                    (add_all_pulses M ev (new_TRestRawSignal M))"
  shows "observables (ProcessEvent C M P obs ev) ''FitSigmaMean'' =
           Some (Value (Finite (residual_rms (GetBinContent C (signal_histogram M allSig))
                   (Eval (Fit C (convolution_call M P allSig)))
                   (fit_xmin (convolution_call M P allSig)) (fit_xmax (convolution_call M P allSig)))))"
proof -
  have "dsqrt (ddiv (Finite (squared_residuals C h f (p - MinBinRange) (p + MaxBinRange)))
                    (of_Int_t (MinBinRange + MaxBinRange)))
        = Finite (residual_rms (GetBinContent C h) (Eval f) (p - MinBinRange) (p + MaxBinRange))" for h f p
    using Sigma_convolution_rms [of C h f p] by (simp add: Sigma_convolution_def)
  then show ?thesis
    using assms
    by (simp add: ProcessEvent_def ProcessEvent_allPulses_def finish_def SetObservableValue_def
        Let_def convolution_call_histogram)
      (simp add: convolution_call_def Let_def)
qed

lemma example_histogram:
  "GetBinContent example_collaborators
     (signal_histogram example_methods (CalculateBaseLine example_methods 20 150 (waveform 1 [6]))) j
   = (if j = 1 then 6 else 0)"
  by (simp add: example_collaborators_def signal_histogram_def example_methods_def
      CalculateBaseLine_def waveform_def new_TRestRawSignal_def sample_at_def Let_def)

lemma example_peak_bin:
  "GetMaxPeakBin example_methods (CalculateBaseLine example_methods 20 150 (waveform 1 [6])) = 0"
  by (simp add: example_methods_def CalculateBaseLine_def waveform_def new_TRestRawSignal_def)

lemma example_fit: "Eval (Fit example_collaborators call) = (\<lambda>x. 0)"
  by (simp add: example_collaborators_def)

lemma sum_delta_sq:
  "finite A \<Longrightarrow> (\<Sum>j \<in> A. (if j = a then c else 0)\<^sup>2) = (if a \<in> A then c\<^sup>2 else (0::real))"
proof -
  assume "finite A"
  have "(\<Sum>j \<in> A. (if j = a then c else 0)\<^sup>2) = (\<Sum>j \<in> A. if j = a then c\<^sup>2 else 0)"
    by (rule sum.cong) simp_all
  also have "\<dots> = (if a \<in> A then c\<^sup>2 else 0)"
    using \<open>finite A\<close> by simp
  finally show ?thesis .
qed

text \<open>
  C4: in every fitting mode the reported residual RMS of a fitted Waveform is the root mean
  square of observed minus model over exactly the bin window the fit was restricted to,
  normalized by the width of that window. In the AGET mode, for the Event of one Waveform
  with the single sample 6 and a fit that leaves the function 0, the published residual is
  the root of 36/310, taken over the 310 bins from \<open>MaxPeakBin - 145\<close>, and the root mean
  square over the window of the fit, the 115 bins from \<open>MaxPeakBin - 45\<close>, is the root of
  36/115.
\<close>

theorem aget_residual_not_over_fit_window:
  "observables (ProcessEvent example_collaborators example_methods aget_process Map.empty
       (event_of [waveform 1 [6]])) ''FitSigmaMean'' = Some (Value (Finite (sqrt (36 / 310))))
   \<and> residual_rms
        (GetBinContent example_collaborators
           (signal_histogram example_methods (CalculateBaseLine example_methods 20 150 (waveform 1 [6]))))
        (Eval (Fit example_collaborators
           (aget_call example_methods aget_process (CalculateBaseLine example_methods 20 150 (waveform 1 [6])))))
        (fit_xmin (aget_call example_methods aget_process
           (CalculateBaseLine example_methods 20 150 (waveform 1 [6]))))
        (fit_xmax (aget_call example_methods aget_process
           (CalculateBaseLine example_methods 20 150 (waveform 1 [6]))))
      = sqrt (36 / 115)
   \<and> sqrt (36 / 310) \<noteq> sqrt (36 / 115)"
proof (intro conjI)
  have modes: "fAgetFit aget_process" "\<not> fAddAllPulses aget_process"
    by (simp_all add: aget_process_def fit_all_process_def)
  have ev: "fSignal (event_of [waveform 1 [6]]) = [waveform 1 [6]]"
    by (simp add: event_of_def)
  show "observables (ProcessEvent example_collaborators example_methods aget_process Map.empty
       (event_of [waveform 1 [6]])) ''FitSigmaMean'' = Some (Value (Finite (sqrt (36 / 310))))"
    unfolding ProcessEvent_aget_single [OF modes ev]
    by (simp add: Sigma_aget_def squared_residuals_sum example_histogram example_peak_bin example_fit
        sum_delta_sq of_Int_t_def)
  show "residual_rms
        (GetBinContent example_collaborators
           (signal_histogram example_methods (CalculateBaseLine example_methods 20 150 (waveform 1 [6]))))
        (Eval (Fit example_collaborators
           (aget_call example_methods aget_process (CalculateBaseLine example_methods 20 150 (waveform 1 [6])))))
        (fit_xmin (aget_call example_methods aget_process
           (CalculateBaseLine example_methods 20 150 (waveform 1 [6]))))
        (fit_xmax (aget_call example_methods aget_process
           (CalculateBaseLine example_methods 20 150 (waveform 1 [6]))))
      = sqrt (36 / 115)"
    by (simp add: residual_rms_def example_histogram example_peak_bin example_fit sum_delta_sq
        aget_call_def Let_def MinBinRange_def MaxBinRange_def)
  show "sqrt (36 / 310) \<noteq> sqrt (36 / 115)"
    by simp
qed

end
